theory Spec2Isabelle
  imports Main "HOL-Library.Word"
begin

section \<open>Analysis-step decorations (index.activateDecorations.ts)\<close>

text \<open>
  A shallow embedding of \<^verbatim>\<open>activateDecorations\<close>: the selection handler
  \<^verbatim>\<open>provideCodeActions\<close>, the update pass \<^verbatim>\<open>update\<close> and the observer of
  \<^verbatim>\<open>store.logs\<close>. One update pass is modelled as running to its end without another
  pass interleaving at its suspension points.
\<close>

subsection \<open>Strings and numbers of the host language\<close>

text \<open>
  A string is a sequence of UTF-16 code units, and its length counts code units. The filler
  glyph of the callouts is the single code unit U+2504.
\<close>

type_synonym jsstring = "16 word list"

definition ascii :: "string \<Rightarrow> jsstring" where
  "ascii s = map (\<lambda>c. of_nat (of_char c)) s"

definition filler :: "16 word" where
  "filler = 0x2504"

definition space :: "16 word" where
  "space = 0x20"

definition tab :: "16 word" where
  "tab = 0x09"

definition newline :: "16 word" where
  "newline = 0x0A"

text \<open>Decimal rendering of a number inside a template literal.\<close>

fun digits :: "nat \<Rightarrow> jsstring" where
  "digits n = (if n < 10 then [0x30 + of_nat n] else digits (n div 10) @ [0x30 + of_nat (n mod 10)])"

definition numberToString :: "int \<Rightarrow> jsstring" where
  "numberToString n = (if n < 0 then 0x2D # digits (nat (- n)) else digits (nat n))"

text \<open>
  \<^verbatim>\<open>Math.max(...xs)\<close> of an empty spread is \<^verbatim>\<open>-Infinity\<close>; every other number of
  the pass is an integer.
\<close>

datatype jsnum = NegInfinity | Num int

fun math_max :: "int list \<Rightarrow> jsnum" where
  "math_max [] = NegInfinity"
| "math_max (x # xs) = (case math_max xs of NegInfinity \<Rightarrow> Num x | Num m \<Rightarrow> Num (max x m))"

fun jsnum_add :: "jsnum \<Rightarrow> int \<Rightarrow> jsnum" where
  "jsnum_add NegInfinity k = NegInfinity"
| "jsnum_add (Num m) k = Num (m + k)"

fun jsnum_sub :: "jsnum \<Rightarrow> int \<Rightarrow> jsnum" where
  "jsnum_sub NegInfinity k = NegInfinity"
| "jsnum_sub (Num m) k = Num (m - k)"

datatype error =
  IllegalLine    \<comment> \<open>\<^verbatim>\<open>TextDocument.lineAt\<close> with a line that is not a line of the document\<close>
| RangeError     \<comment> \<open>\<^verbatim>\<open>String.prototype.repeat\<close> with a negative or infinite count\<close>

fun repeat :: "16 word \<Rightarrow> jsnum \<Rightarrow> error + jsstring" where
  "repeat g NegInfinity = Inl RangeError"
| "repeat g (Num n) = (if n < 0 then Inl RangeError else Inr (replicate (nat n) g))"

text \<open>\<^verbatim>\<open>Array.prototype.map\<close> with a callback that may throw: the first throw ends the map.\<close>

fun mapE :: "('a \<Rightarrow> error + 'b) \<Rightarrow> 'a list \<Rightarrow> error + 'b list" where
  "mapE f [] = Inr []"
| "mapE f (x # xs) =
     (case f x of
        Inl e \<Rightarrow> Inl e
      | Inr y \<Rightarrow> (case mapE f xs of Inl e \<Rightarrow> Inl e | Inr ys \<Rightarrow> Inr (y # ys)))"

text \<open>
  An \<^verbatim>\<open>async\<close> function returns a promise of its value. A promise is an object, and
  every object is truthy.
\<close>

datatype 'a promise = Promise 'a

definition truthy :: "'a promise \<Rightarrow> bool" where
  "truthy p = True"

definition array_filter :: "('a \<Rightarrow> 'b promise) \<Rightarrow> 'a list \<Rightarrow> 'a list" where
  "array_filter callback xs = filter (\<lambda>x. truthy (callback x)) xs"

subsection \<open>Data model\<close>

record position =
  line :: nat
  character :: nat

record range =
  range_start :: position
  range_end :: position

definition Range :: "position \<Rightarrow> position \<Rightarrow> range" where
  "Range s e = \<lparr>range_start = s, range_end = e\<rparr>"

record document =
  uri :: string
  lines :: "jsstring list"

definition lineAt :: "document \<Rightarrow> nat \<Rightarrow> error + jsstring" where
  "lineAt doc n = (if n < length (lines doc) then Inr (lines doc ! n) else Inl IllegalLine)"

fun join_lines :: "jsstring list \<Rightarrow> jsstring" where
  "join_lines [] = []"
| "join_lines [l] = l"
| "join_lines (l # ls) = l @ newline # join_lines ls"

definition getText :: "document \<Rightarrow> jsstring" where
  "getText doc = join_lines (lines doc)"

record editor =
  editor_id :: nat
  document :: document
  tabSize :: int

text \<open>
  The identity of a result is opaque and comparable. The box \<^verbatim>\<open>activeResultId\<close> holds
  \<^verbatim>\<open>JSON.stringify(result._id)\<close> and \<^verbatim>\<open>update\<close> reads it back with
  \<^verbatim>\<open>JSON.parse\<close>; the model keeps the identity itself in the box, the text of an
  identity being never empty and parsing being the inverse of printing.
\<close>

type_synonym ResultId = nat

text \<open>
  A thread-flow location. \<^verbatim>\<open>tfl_ref\<close> is the identity of the object:
  \<^verbatim>\<open>Array.prototype.indexOf\<close> compares objects by identity, not by content. The fields are
  \<^verbatim>\<open>location?.physicalLocation?.artifactLocation\<close>,
  \<^verbatim>\<open>location?.physicalLocation?.region\<close> (here already in editor coordinates) and
  \<^verbatim>\<open>location?.message?.text\<close>.
\<close>

record threadFlowLocation =
  tfl_ref :: nat
  artifactLocation :: "string option"
  region :: "range option"
  message_text :: "jsstring option"

record threadFlow =
  locations :: "threadFlowLocation list"

record codeFlow =
  threadFlows :: "threadFlow list"

record result =
  result_id :: ResultId
  codeFlows :: "codeFlow list option"

record log =
  log_uri :: string
  results :: "result list"

record Store =
  logs :: "log list"
  commit_sha :: "string option"

record change =
  change_value :: jsstring
  added :: bool
  removed :: bool

text \<open>
  The collaborators that are imported into the file: \<^verbatim>\<open>findResult\<close> and
  \<^verbatim>\<open>parseArtifactLocation\<close> (shared), \<^verbatim>\<open>baser.translateLocalToArtifact\<close>,
  \<^verbatim>\<open>getOriginalDoc\<close>, \<^verbatim>\<open>diffChars\<close> (the diff library), and the two parts of
  \<^verbatim>\<open>driftedRegionToSelection\<close> that the specification leaves open: the projector
  itself, and the range of a location that has no region when there is no baseline.
\<close>

record env =
  findResult :: "log list \<Rightarrow> ResultId \<Rightarrow> result option"
  parseArtifactLocation :: "result \<Rightarrow> string option \<Rightarrow> string option"
  translateLocalToArtifact :: "string \<Rightarrow> string option"
  getOriginalDoc :: "string option \<Rightarrow> document \<Rightarrow> document option"
  diffChars :: "jsstring \<Rightarrow> jsstring \<Rightarrow> change list"
  project :: "change list \<Rightarrow> document \<Rightarrow> range option \<Rightarrow> document \<Rightarrow> range"
  noRegion :: range

subsection \<open>The selection handler\<close>

record diagnostic =
  diag_result :: "result option"

record codeActionContext =
  only :: "string option"
  diagnostics :: "diagnostic list"

text \<open>
  \<^verbatim>\<open>provideCodeActions\<close>: the value returned to the editor (\<^verbatim>\<open>undefined\<close> or the
  empty list of actions) and the box after the call.
\<close>

definition provideCodeActions ::
  "codeActionContext \<Rightarrow> ResultId option \<Rightarrow> unit list option \<times> ResultId option" where
  "provideCodeActions context activeResultId =
     (if only context \<noteq> None then (None, activeResultId)
      else case diagnostics context of
             [] \<Rightarrow> (None, activeResultId)
           | diagnostic # _ \<Rightarrow>
               (case diag_result diagnostic of
                  None \<Rightarrow> (None, activeResultId)
                | Some result \<Rightarrow> (Some [], Some (result_id result))))"

text \<open>The result that a selection event carries: the one of its first diagnostic, if any.\<close>

definition carriedResult :: "codeActionContext \<Rightarrow> result option" where
  "carriedResult context =
     (case diagnostics context of [] \<Rightarrow> None | diagnostic # _ \<Rightarrow> diag_result diagnostic)"

definition selectionEvent :: "result option \<Rightarrow> codeActionContext" where
  "selectionEvent r =
     \<lparr>only = None,
      diagnostics = (case r of None \<Rightarrow> [] | Some x \<Rightarrow> [\<lparr>diag_result = Some x\<rparr>])\<rparr>"

subsection \<open>Rendered decorations and the state of the extension\<close>

record decorationOptions =
  callout_range :: range
  hoverMessage :: jsstring
  contentText :: jsstring

text \<open>
  What each editor shows, per decoration type. \<^verbatim>\<open>editor.setDecorations(type, xs)\<close>
  replaces the set of that type on that editor.
\<close>

record decorations =
  highlight :: "nat \<Rightarrow> range list"
  callout :: "nat \<Rightarrow> decorationOptions list"

definition setHighlight :: "editor \<Rightarrow> range list \<Rightarrow> decorations \<Rightarrow> decorations" where
  "setHighlight e rs d = d\<lparr>highlight := (highlight d)(editor_id e := rs)\<rparr>"

definition setCallout :: "editor \<Rightarrow> decorationOptions list \<Rightarrow> decorations \<Rightarrow> decorations" where
  "setCallout e cs d = d\<lparr>callout := (callout d)(editor_id e := cs)\<rparr>"

record state =
  activeResultId :: "ResultId option"
  store :: Store
  visibleTextEditors :: "editor list"
  decorations :: decorations

subsection \<open>The update pass\<close>

text \<open>\<^verbatim>\<open>result.codeFlows?.[0]?.threadFlows?.[0]?.locations ?? []\<close>\<close>

definition resultLocations :: "result \<Rightarrow> threadFlowLocation list" where
  "resultLocations result =
     (case codeFlows result of
        None \<Rightarrow> []
      | Some cfs \<Rightarrow>
          (case cfs of
             [] \<Rightarrow> []
           | cf # _ \<Rightarrow> (case threadFlows cf of [] \<Rightarrow> [] | tf # _ \<Rightarrow> locations tf)))"

text \<open>
  The callback given to \<^verbatim>\<open>locations.filter\<close>. It is an \<^verbatim>\<open>async\<close> arrow function:
  what \<^verbatim>\<open>filter\<close> receives from it is the promise of the comparison.
\<close>

definition inDoc :: "env \<Rightarrow> result \<Rightarrow> document \<Rightarrow> threadFlowLocation \<Rightarrow> bool promise" where
  "inDoc env result currentDoc tfl =
     (let artifactUriString = parseArtifactLocation env result (artifactLocation tfl)
      in Promise (translateLocalToArtifact env (uri currentDoc) = artifactUriString))"

definition locationsInDoc ::
  "env \<Rightarrow> result \<Rightarrow> document \<Rightarrow> threadFlowLocation list \<Rightarrow> threadFlowLocation list" where
  "locationsInDoc env result currentDoc locs = array_filter (inDoc env result currentDoc) locs"

definition diffBlocks :: "env \<Rightarrow> document option \<Rightarrow> document \<Rightarrow> change list" where
  "diffBlocks env originalDoc currentDoc =
     (case originalDoc of
        Some od \<Rightarrow> diffChars env (getText od) (getText currentDoc)
      | None \<Rightarrow> [])"

text \<open>
  Modelled from the spec: \<^verbatim>\<open>driftedRegionToSelection\<close>, whose file (regionToSelection) is
  not among the sources. Section 4.2: when there is no baseline snapshot the projector is
  bypassed and the baseline region is used as it is on the current document; otherwise the
  region is projected through the edit script. The update pass uses the value as a range.
\<close>

definition driftedRegionToSelection ::
  "env \<Rightarrow> change list \<Rightarrow> document \<Rightarrow> range option \<Rightarrow> document option \<Rightarrow> range" where
  "driftedRegionToSelection env blocks currentDoc reg originalDoc =
     (case originalDoc of
        None \<Rightarrow> (case reg of None \<Rightarrow> noRegion env | Some r \<Rightarrow> r)
      | Some od \<Rightarrow> project env blocks currentDoc reg od)"

definition ranges ::
  "env \<Rightarrow> change list \<Rightarrow> document \<Rightarrow> document option \<Rightarrow> threadFlowLocation list \<Rightarrow> range list" where
  "ranges env blocks currentDoc originalDoc locsInDoc =
     map (\<lambda>tfl. driftedRegionToSelection env blocks currentDoc (region tfl) originalDoc) locsInDoc"

text \<open>\<^verbatim>\<open>locations.indexOf(tfl)\<close>: the first index holding the same object, or \<open>-1\<close>.\<close>

fun indexOf :: "threadFlowLocation list \<Rightarrow> threadFlowLocation \<Rightarrow> int" where
  "indexOf [] x = - 1"
| "indexOf (y # ys) x =
     (if tfl_ref y = tfl_ref x then 0
      else (let i = indexOf ys x in if i < 0 then - 1 else i + 1))"

definition message :: "threadFlowLocation list \<Rightarrow> threadFlowLocation \<Rightarrow> jsstring" where
  "message locs tfl =
     ascii ''Step '' @ numberToString (indexOf locs tfl + 1) @
       (case message_text tfl of
          None \<Rightarrow> []
        | Some text \<Rightarrow> if text = [] then [] else ascii '': '' @ text)"

definition messages :: "threadFlowLocation list \<Rightarrow> threadFlowLocation list \<Rightarrow> jsstring list" where
  "messages locs locsInDoc = map (message locs) locsInDoc"

definition rangeEnd :: "document \<Rightarrow> range \<Rightarrow> error + range" where
  "rangeEnd currentDoc r =
     (case lineAt currentDoc (line (range_end r)) of
        Inl e \<Rightarrow> Inl e
      | Inr text \<Rightarrow>
          (let endPos = \<lparr>line = line (range_end r), character = length text\<rparr>
           in Inr (Range endPos endPos)))"

definition rangesEnd :: "document \<Rightarrow> range list \<Rightarrow> error + range list" where
  "rangesEnd currentDoc rs = mapE (rangeEnd currentDoc) rs"

definition rangeEndAdj :: "document \<Rightarrow> int \<Rightarrow> range \<Rightarrow> error + int" where
  "rangeEndAdj currentDoc tabSz r =
     (case lineAt currentDoc (line (range_end r)) of
        Inl e \<Rightarrow> Inl e
      | Inr text \<Rightarrow>
          (let tabCount = int (length (filter (\<lambda>c. c = tab) text));
               tabCharAdj = tabCount * (tabSz - 1)
           in Inr (int (character (range_end r)) + tabCharAdj)))"

definition rangesEndAdj :: "document \<Rightarrow> int \<Rightarrow> range list \<Rightarrow> error + int list" where
  "rangesEndAdj currentDoc tabSz ends = mapE (rangeEndAdj currentDoc tabSz) ends"

definition maxRangeEnd :: "int list \<Rightarrow> jsnum" where
  "maxRangeEnd adjs = jsnum_add (math_max adjs) 2"

definition decorCallout ::
  "jsnum \<Rightarrow> int list \<Rightarrow> jsstring list \<Rightarrow> range \<times> nat \<Rightarrow> error + decorationOptions" where
  "decorCallout mx adjs msgs ri =
     (case repeat filler (jsnum_sub mx (adjs ! snd ri)) of
        Inl e \<Rightarrow> Inl e
      | Inr pad \<Rightarrow>
          Inr \<lparr>callout_range = fst ri,
               hoverMessage = msgs ! snd ri,
               contentText = space # pad @ space # msgs ! snd ri\<rparr>)"

definition decorCallouts ::
  "jsnum \<Rightarrow> int list \<Rightarrow> jsstring list \<Rightarrow> range list \<Rightarrow> error + decorationOptions list" where
  "decorCallouts mx adjs msgs ends =
     mapE (decorCallout mx adjs msgs) (zip ends [0..<length ends])"

text \<open>The sub-scope for callouts, up to its call of \<^verbatim>\<open>setDecorations\<close>.\<close>

definition callouts ::
  "document \<Rightarrow> int \<Rightarrow> threadFlowLocation list \<Rightarrow> threadFlowLocation list \<Rightarrow> range list
     \<Rightarrow> error + decorationOptions list" where
  "callouts currentDoc tabSz locs locsInDoc rs =
     (let msgs = messages locs locsInDoc
      in case rangesEnd currentDoc rs of
           Inl e \<Rightarrow> Inl e
         | Inr ends \<Rightarrow>
             (case rangesEndAdj currentDoc tabSz ends of
                Inl e \<Rightarrow> Inl e
              | Inr adjs \<Rightarrow> decorCallouts (maxRangeEnd adjs) adjs msgs ends))"

text \<open>
  The body of the loop over the visible editors. A throw leaves what was set before it and
  ends the pass.
\<close>

definition updateEditor ::
  "env \<Rightarrow> Store \<Rightarrow> result \<Rightarrow> editor \<Rightarrow> decorations \<Rightarrow> decorations \<times> error option" where
  "updateEditor env st result ed decos =
     (let currentDoc = document ed;
          locs = resultLocations result;
          locsInDoc = locationsInDoc env result currentDoc locs;
          originalDoc = getOriginalDoc env (commit_sha st) currentDoc;
          blocks = diffBlocks env originalDoc currentDoc;
          rs = ranges env blocks currentDoc originalDoc locsInDoc;
          decos1 = setHighlight ed rs decos
      in case callouts currentDoc (tabSize ed) locs locsInDoc rs of
           Inl e \<Rightarrow> (decos1, Some e)
         | Inr cs \<Rightarrow> (setCallout ed cs decos1, None))"

fun updateEditors ::
  "env \<Rightarrow> Store \<Rightarrow> result \<Rightarrow> editor list \<Rightarrow> decorations \<Rightarrow> decorations \<times> error option" where
  "updateEditors env st result [] decos = (decos, None)"
| "updateEditors env st result (ed # eds) decos =
     (case updateEditor env st result ed decos of
        (decos1, Some e) \<Rightarrow> (decos1, Some e)
      | (decos1, None) \<Rightarrow> updateEditors env st result eds decos1)"

definition update :: "env \<Rightarrow> state \<Rightarrow> state \<times> error option" where
  "update env s =
     (case activeResultId s of
        None \<Rightarrow> (s, None)
      | Some resultId \<Rightarrow>
          (case findResult env (logs (store s)) resultId of
             None \<Rightarrow> (s, None)
           | Some result \<Rightarrow>
               (case updateEditors env (store s) result (visibleTextEditors s) (decorations s) of
                  (decos, e) \<Rightarrow> (s\<lparr>decorations := decos\<rparr>, e))))"

subsection \<open>The observer of the logs\<close>

text \<open>
  Called after \<^verbatim>\<open>store.logs\<close> has changed, with the logs that the change removed.
\<close>

definition clearEditor :: "editor \<Rightarrow> decorations \<Rightarrow> decorations" where
  "clearEditor ed decos = setHighlight ed [] (setCallout ed [] decos)"

definition logsObserver :: "log list \<Rightarrow> state \<Rightarrow> state" where
  "logsObserver removed_logs s =
     (if removed_logs = [] then s
      else s\<lparr>decorations := fold clearEditor (visibleTextEditors s) (decorations s)\<rparr>)"

subsection \<open>The claims of the specification, in its words\<close>

text \<open>
  The filter in the words of the specification: the locations whose artifact resolves to the
  document of the editor; a location whose artifact does not resolve is left out.
\<close>

definition spec_locationsInDoc ::
  "env \<Rightarrow> result \<Rightarrow> document \<Rightarrow> threadFlowLocation list \<Rightarrow> threadFlowLocation list" where
  "spec_locationsInDoc env result currentDoc locs =
     filter (\<lambda>tfl. case parseArtifactLocation env result (artifactLocation tfl) of
                     None \<Rightarrow> False
                   | Some a \<Rightarrow> translateLocalToArtifact env (uri currentDoc) = Some a) locs"


text \<open>
  The visual column of a character column on a line: the column, plus
  \<open>tabWidth - 1\<close> for each tab of the line before the position \<open>before\<close>.
\<close>

definition spec_visualColumn :: "jsstring \<Rightarrow> nat \<Rightarrow> int \<Rightarrow> nat \<Rightarrow> int" where
  "spec_visualColumn text column tabWidth before =
     int column + (tabWidth - 1) * int (length (filter (\<lambda>c. c = tab) (take before text)))"

subsection \<open>Concrete inputs\<close>

text \<open>
  A sample of the collaborators: a result is found by its identity among the results of the
  logs, the artifact of a location is the uri it names, a local uri is its own artifact, and
  no baseline snapshot is available.
\<close>

definition sampleEnv :: env where
  "sampleEnv =
     \<lparr>findResult = (\<lambda>ls rid. find (\<lambda>r. result_id r = rid) (concat (map results ls))),
      parseArtifactLocation = (\<lambda>result a. a),
      translateLocalToArtifact = (\<lambda>u. Some u),
      getOriginalDoc = (\<lambda>sha doc. None),
      diffChars = (\<lambda>a b. []),
      project = (\<lambda>blocks doc reg od. case reg of
                   None \<Rightarrow> Range \<lparr>line = 0, character = 0\<rparr> \<lparr>line = 0, character = 0\<rparr>
                 | Some r \<Rightarrow> r),
      noRegion = Range \<lparr>line = 0, character = 0\<rparr> \<lparr>line = 0, character = 0\<rparr>\<rparr>"

text \<open>A document of two lines, of 10 and of 14 characters, and the same document cut to one line.\<close>

definition docA :: document where
  "docA = \<lparr>uri = ''a.c'', lines = [ascii ''int x = 0;'', ascii ''return x + 10;'']\<rparr>"

definition docA1 :: document where
  "docA1 = \<lparr>uri = ''a.c'', lines = [ascii ''int x = 0;'']\<rparr>"

text \<open>A document whose only line has a tab after its first character.\<close>

definition docT :: document where
  "docT = \<lparr>uri = ''t.c'', lines = [[0x78, tab, 0x79]]\<rparr>"

definition region0 :: range where
  "region0 = Range \<lparr>line = 0, character = 4\<rparr> \<lparr>line = 0, character = 5\<rparr>"

text \<open>A region of two lines: it starts on line 0 and ends on line 1.\<close>

definition region1 :: range where
  "region1 = Range \<lparr>line = 0, character = 8\<rparr> \<lparr>line = 1, character = 8\<rparr>"

definition regionT :: range where
  "regionT = Range \<lparr>line = 0, character = 0\<rparr> \<lparr>line = 0, character = 1\<rparr>"

definition regionB :: range where
  "regionB = Range \<lparr>line = 0, character = 0\<rparr> \<lparr>line = 0, character = 3\<rparr>"

definition loc0 :: threadFlowLocation where
  "loc0 = \<lparr>tfl_ref = 0, artifactLocation = Some ''a.c'', region = Some region0,
           message_text = Some (ascii ''source'')\<rparr>"

definition loc1 :: threadFlowLocation where
  "loc1 = \<lparr>tfl_ref = 1, artifactLocation = Some ''a.c'', region = Some region1,
           message_text = None\<rparr>"

definition locB :: threadFlowLocation where
  "locB = \<lparr>tfl_ref = 2, artifactLocation = Some ''b.c'', region = Some regionB,
           message_text = None\<rparr>"

definition locU :: threadFlowLocation where
  "locU = \<lparr>tfl_ref = 3, artifactLocation = None, region = Some region0,
           message_text = None\<rparr>"

definition result42 :: result where
  "result42 = \<lparr>result_id = 42,
               codeFlows = Some [\<lparr>threadFlows = [\<lparr>locations = [loc0, loc1]\<rparr>]\<rparr>]\<rparr>"

definition result7 :: result where
  "result7 = \<lparr>result_id = 7,
              codeFlows = Some [\<lparr>threadFlows = [\<lparr>locations = [loc0, locB, locU]\<rparr>]\<rparr>]\<rparr>"

definition logA :: log where
  "logA = \<lparr>log_uri = ''a.sarif'', results = [result42]\<rparr>"

definition logB :: log where
  "logB = \<lparr>log_uri = ''b.sarif'', results = [result7]\<rparr>"

definition edA :: editor where
  "edA = \<lparr>editor_id = 0, document = docA, tabSize = 4\<rparr>"

definition edA1 :: editor where
  "edA1 = \<lparr>editor_id = 0, document = docA1, tabSize = 4\<rparr>"

definition noDecorations :: decorations where
  "noDecorations = \<lparr>highlight = (\<lambda>e. []), callout = (\<lambda>e. [])\<rparr>"

text \<open>What an earlier pass left on the editor 0.\<close>

definition oldCallout :: decorationOptions where
  "oldCallout = \<lparr>callout_range = region0, hoverMessage = ascii ''Step 1'',
                 contentText = space # replicate 2 filler @ space # ascii ''Step 1''\<rparr>"

definition oldDecorations :: decorations where
  "oldDecorations = \<lparr>highlight = (\<lambda>e. if e = 0 then [region0] else []),
                     callout = (\<lambda>e. if e = 0 then [oldCallout] else [])\<rparr>"

text \<open>The result 42 is pinned, both logs are open, the editor of \<^verbatim>\<open>a.c\<close> is visible.\<close>

definition stateAB :: state where
  "stateAB = \<lparr>activeResultId = Some 42,
              store = \<lparr>logs = [logA, logB], commit_sha = None\<rparr>,
              visibleTextEditors = [edA],
              decorations = noDecorations\<rparr>"

text \<open>After the pass on \<^verbatim>\<open>stateAB\<close>, the log \<^verbatim>\<open>b.sarif\<close> has been removed.\<close>

definition stateA :: state where
  "stateA = (fst (update sampleEnv stateAB))\<lparr>store := \<lparr>logs = [logA], commit_sha = None\<rparr>\<rparr>"

text \<open>The pinned result 42 resolves no more, and the editor still shows decorations.\<close>

definition stateStale :: state where
  "stateStale = \<lparr>activeResultId = Some 42,
                 store = \<lparr>logs = [logB], commit_sha = None\<rparr>,
                 visibleTextEditors = [edA],
                 decorations = oldDecorations\<rparr>"

text \<open>The result 7 is pinned: its locations lie in two files and one names no artifact.\<close>

definition state7 :: state where
  "state7 = \<lparr>activeResultId = Some 7,
             store = \<lparr>logs = [logA, logB], commit_sha = None\<rparr>,
             visibleTextEditors = [edA],
             decorations = noDecorations\<rparr>"

text \<open>
  The result 42 is pinned and the visible document has been cut to its first line since the
  analysis; the editor shows what an earlier pass rendered.
\<close>

definition stateCut :: state where
  "stateCut = \<lparr>activeResultId = Some 42,
               store = \<lparr>logs = [logA], commit_sha = None\<rparr>,
               visibleTextEditors = [edA1],
               decorations = oldDecorations\<rparr>"




section \<open>Properties\<close>

subsection \<open>Unfolding the concrete inputs and the pass\<close>

lemmas sample_defs =
  sampleEnv_def docA_def docA1_def docT_def region0_def region1_def regionT_def regionB_def
  loc0_def loc1_def locB_def locU_def result42_def result7_def logA_def logB_def edA_def
  edA1_def noDecorations_def oldCallout_def oldDecorations_def stateAB_def stateA_def
  stateStale_def state7_def stateCut_def

lemmas pass_defs =
  update_def updateEditor_def resultLocations_def locationsInDoc_def array_filter_def
  truthy_def inDoc_def diffBlocks_def ranges_def driftedRegionToSelection_def callouts_def
  messages_def message_def rangesEnd_def rangesEndAdj_def rangeEnd_def rangeEndAdj_def
  maxRangeEnd_def decorCallouts_def decorCallout_def lineAt_def setHighlight_def
  setCallout_def Range_def ascii_def numberToString_def Let_def

subsection \<open>Maps that may throw\<close>

lemma mapE_length: "mapE f xs = Inr ys \<Longrightarrow> length ys = length xs"
  by (induction xs arbitrary: ys) (auto split: sum.splits)

lemma mapE_nth: "mapE f xs = Inr ys \<Longrightarrow> i < length xs \<Longrightarrow> f (xs ! i) = Inr (ys ! i)"
proof (induction xs arbitrary: ys i)
  case Nil
  then show ?case by simp
next
  case (Cons x xs)
  then show ?case by (cases i) (auto split: sum.splits)
qed

lemma mapE_total:
  "(\<And>x. x \<in> set xs \<Longrightarrow> \<exists>y. f x = Inr y) \<Longrightarrow> \<exists>ys. mapE f xs = Inr ys"
proof (induction xs)
  case Nil
  then show ?case by simp
next
  case (Cons x xs)
  then obtain y where "f x = Inr y" by fastforce
  moreover from Cons obtain ys where "mapE f xs = Inr ys" by fastforce
  ultimately show ?case by simp
qed

lemma mapE_error: "mapE f xs = Inl e \<Longrightarrow> \<exists>x \<in> set xs. f x = Inl e"
  by (induction xs) (auto split: sum.splits)

subsection \<open>The layout of the callouts\<close>

lemma math_max_Max: "xs \<noteq> [] \<Longrightarrow> math_max xs = Num (Max (set xs))"
proof (induction xs)
  case Nil
  then show ?case by simp
next
  case (Cons x xs)
  then show ?case by (cases xs) (auto simp: max.commute)
qed

lemma repeat_count_ge:
  fixes adjs :: "int list"
  assumes "i < length adjs"
  shows "2 \<le> Max (set adjs) + 2 - adjs ! i"
proof -
  from assms have "adjs ! i \<le> Max (set adjs)" by simp
  then show ?thesis by simp
qed

lemma repeat_count:
  assumes "i < length adjs"
  shows "jsnum_sub (maxRangeEnd adjs) (adjs ! i) = Num (Max (set adjs) + 2 - adjs ! i)"
proof -
  from assms have "adjs \<noteq> []" by auto
  then show ?thesis by (simp add: maxRangeEnd_def math_max_Max)
qed

lemma decorCallouts_total:
  assumes "length adjs = length ends"
  shows "\<exists>cs. decorCallouts (maxRangeEnd adjs) adjs msgs ends = Inr cs"
  unfolding decorCallouts_def
proof (rule mapE_total)
  fix x
  assume "x \<in> set (zip ends [0..<length ends])"
  then have lt: "snd x < length adjs"
    using assms by (auto simp: in_set_zip)
  show "\<exists>y. decorCallout (maxRangeEnd adjs) adjs msgs x = Inr y"
    using repeat_count [OF lt] repeat_count_ge [OF lt]
    by (simp add: decorCallout_def)
qed



lemma rangeEnd_Inr:
  assumes "rangeEnd currentDoc r = Inr e"
  shows "line (range_end r) < length (lines currentDoc)"
    and "e = Range \<lparr>line = line (range_end r),
                     character = length (lines currentDoc ! line (range_end r))\<rparr>
                   \<lparr>line = line (range_end r),
                     character = length (lines currentDoc ! line (range_end r))\<rparr>"
  using assms by (auto simp: rangeEnd_def lineAt_def Let_def split: if_splits)

lemma rangeEndAdj_after_rangeEnd:
  assumes "rangeEnd currentDoc r = Inr e"
  shows "rangeEndAdj currentDoc tabSz e =
           Inr (int (length (lines currentDoc ! line (range_end r)))
                + int (length (filter (\<lambda>c. c = tab) (lines currentDoc ! line (range_end r))))
                  * (tabSz - 1))"
  using rangeEnd_Inr [OF assms]
  by (simp add: rangeEndAdj_def lineAt_def Range_def)

lemma rangesEndAdj_total:
  assumes "rangesEnd currentDoc rs = Inr ends"
  shows "\<exists>adjs. rangesEndAdj currentDoc tabSz ends = Inr adjs"
  unfolding rangesEndAdj_def
proof (rule mapE_total)
  fix e
  assume "e \<in> set ends"
  then obtain i where i: "i < length ends" "ends ! i = e"
    by (auto simp: in_set_conv_nth)
  from assms have len: "length ends = length rs"
    by (simp add: rangesEnd_def mapE_length)
  from assms i len have "rangeEnd currentDoc (rs ! i) = Inr e"
    using mapE_nth [of "rangeEnd currentDoc" rs ends i] by (simp add: rangesEnd_def)
  then show "\<exists>y. rangeEndAdj currentDoc tabSz e = Inr y"
    by (simp add: rangeEndAdj_after_rangeEnd)
qed

lemma callouts_no_RangeError:
  "callouts currentDoc tabSz locs locsInDoc rs \<noteq> Inl RangeError"
proof (cases "rangesEnd currentDoc rs")
  case (Inl e)
  then obtain r where "rangeEnd currentDoc r = Inl e"
    using mapE_error [of "rangeEnd currentDoc" rs e] by (auto simp: rangesEnd_def)
  then have "e = IllegalLine"
    by (auto simp: rangeEnd_def lineAt_def Let_def split: if_splits)
  with Inl show ?thesis by (simp add: callouts_def)
next
  case (Inr ends)
  then obtain adjs where adjs: "rangesEndAdj currentDoc tabSz ends = Inr adjs"
    using rangesEndAdj_total by blast
  then have "length adjs = length ends"
    by (simp add: rangesEndAdj_def mapE_length)
  then obtain cs where
    "decorCallouts (maxRangeEnd adjs) adjs (messages locs locsInDoc) ends = Inr cs"
    using decorCallouts_total by blast
  with Inr adjs show ?thesis by (simp add: callouts_def)
qed

lemma callouts_total:
  assumes "\<And>r. r \<in> set rs \<Longrightarrow> line (range_end r) < length (lines currentDoc)"
  shows "\<exists>cs. callouts currentDoc tabSz locs locsInDoc rs = Inr cs"
proof -
  have "\<exists>ends. mapE (rangeEnd currentDoc) rs = Inr ends"
  proof (rule mapE_total)
    fix r
    assume "r \<in> set rs"
    then show "\<exists>y. rangeEnd currentDoc r = Inr y"
      using assms by (simp add: rangeEnd_def lineAt_def Let_def)
  qed
  then obtain ends where ends: "rangesEnd currentDoc rs = Inr ends"
    by (auto simp: rangesEnd_def)
  then obtain adjs where adjs: "rangesEndAdj currentDoc tabSz ends = Inr adjs"
    using rangesEndAdj_total by blast
  then have "length adjs = length ends"
    by (simp add: rangesEndAdj_def mapE_length)
  then obtain cs where
    "decorCallouts (maxRangeEnd adjs) adjs (messages locs locsInDoc) ends = Inr cs"
    using decorCallouts_total by blast
  with ends adjs show ?thesis by (simp add: callouts_def)
qed


subsection \<open>The pass over one editor\<close>

text \<open>
  The callback of the filter is truthy on every location, whatever the comparison inside it
  gives: the filter keeps the whole list.
\<close>

lemma locationsInDoc_all: "locationsInDoc env result currentDoc locs = locs"
  by (simp add: locationsInDoc_def array_filter_def truthy_def)

lemma updateEditor_highlight:
  "highlight (fst (updateEditor env st result ed decos)) (editor_id ed) =
     ranges env (diffBlocks env (getOriginalDoc env (commit_sha st) (document ed)) (document ed))
       (document ed) (getOriginalDoc env (commit_sha st) (document ed))
       (locationsInDoc env result (document ed) (resultLocations result))"
  by (simp add: updateEditor_def Let_def setHighlight_def setCallout_def split: sum.splits)

text \<open>
  An editor's pass either sets both decoration types, or throws after the highlights were
  set and before the callouts are.
\<close>

lemma updateEditor_outcome:
  "(\<exists>rs cs. updateEditor env st result ed decos =
             (setCallout ed cs (setHighlight ed rs decos), None))
   \<or> (\<exists>rs e. updateEditor env st result ed decos = (setHighlight ed rs decos, Some e))"
  unfolding updateEditor_def Let_def by (auto split: sum.splits)

lemma ranges_bypass:
  "ranges (env\<lparr>project := p, diffChars := d\<rparr>) [] currentDoc None locs
     = ranges env [] currentDoc None locs"
proof -
  have "driftedRegionToSelection (env\<lparr>project := p, diffChars := d\<rparr>) [] currentDoc reg None
          = driftedRegionToSelection env [] currentDoc reg None" for reg
    by (cases reg) (simp_all add: driftedRegionToSelection_def)
  then show ?thesis by (simp add: ranges_def)
qed

subsection \<open>The observer of the logs\<close>

lemma fold_clearEditor_highlight:
  "highlight (fold clearEditor eds d) e =
     (if e \<in> editor_id ` set eds then [] else highlight d e)"
  by (induction eds arbitrary: d) (auto simp: clearEditor_def setHighlight_def setCallout_def)

lemma fold_clearEditor_callout:
  "callout (fold clearEditor eds d) e =
     (if e \<in> editor_id ` set eds then [] else callout d e)"
  by (induction eds arbitrary: d) (auto simp: clearEditor_def setHighlight_def setCallout_def)

subsection \<open>Step numbers\<close>





subsection \<open>What a pass puts into its callouts\<close>





section \<open>The claims\<close>

text \<open>
  C1. Claimed: for every update pass and every visible editor, the locations rendered for the
  pinned result are exactly those of the result's ordered location list whose artifact
  resolves to the document of the editor, and a location whose artifact does not resolve is
  left out. The code does not do this. The result 7 has three locations: one in
  \<^verbatim>\<open>a.c\<close>, one in \<^verbatim>\<open>b.c\<close> and one that names no artifact. In the editor of
  \<^verbatim>\<open>a.c\<close> the filter of the code keeps all three, where the claimed filter keeps the
  first only, and the pass highlights three ranges in that editor.
\<close>

theorem filter_keeps_foreign_locations:
  "locationsInDoc sampleEnv result7 docA (resultLocations result7) = [loc0, locB, locU]
   \<and> spec_locationsInDoc sampleEnv result7 docA (resultLocations result7) = [loc0]
   \<and> highlight (decorations (fst (update sampleEnv state7))) 0 = [region0, regionB, region0]"
  by (simp add: sample_defs pass_defs spec_locationsInDoc_def tab_def space_def filler_def)

text \<open>
  C2. A selection event that carries no result leaves the pinned result id as it was, from
  every state of the box, and never resets it; after a selection of the result 42 followed
  by a selection that carries nothing, the pinned id is still 42.
\<close>

theorem sticky_selection:
  "(carriedResult context = None \<longrightarrow>
      provideCodeActions context pinned = (None, pinned))
   \<and> snd (provideCodeActions (selectionEvent None)
        (snd (provideCodeActions (selectionEvent (Some result42)) pinned))) = Some 42"
  by (cases "diagnostics context")
     (simp_all add: provideCodeActions_def carriedResult_def selectionEvent_def result42_def)

theorem sticky_selection_witness:
  "carriedResult \<lparr>only = None, diagnostics = [\<lparr>diag_result = None\<rparr>]\<rparr> = None
   \<and> provideCodeActions \<lparr>only = None, diagnostics = [\<lparr>diag_result = None\<rparr>]\<rparr> (Some 42)
       = (None, Some 42)"
  using sticky_selection [of "\<lparr>only = None, diagnostics = [\<lparr>diag_result = None\<rparr>]\<rparr>" "Some 42"]
  by (simp add: carriedResult_def)

text \<open>
  C3, as claimed: an update pass in which the pinned id resolves to no result clears all
  rendered annotations. It does not: in \<^verbatim>\<open>stateStale\<close> the pinned result 42 is not in
  the store and the editor 0 shows a highlight and a callout (as after a pass that was
  suspended at its baseline fetch while the log was removed, and then resumed); after the
  update pass the editor shows them still.
\<close>

theorem stale_pass_keeps_decorations:
  "findResult sampleEnv (logs (store stateStale)) 42 = None
   \<and> activeResultId stateStale = Some 42
   \<and> highlight (decorations (fst (update sampleEnv stateStale))) 0 = [region0]
   \<and> callout (decorations (fst (update sampleEnv stateStale))) 0 = [oldCallout]
   \<and> highlight (decorations (fst (update sampleEnv stateStale))) 0 \<noteq> []"
  by (simp add: sample_defs pass_defs)

text \<open>
  C3, amended. An update pass in which the pinned id resolves to no result renders nothing
  and changes nothing: every editor keeps the decorations it had, the pass ends without an
  error and the pinned id stays as it is, dangling. Clearing is the work of the observer of
  the logs: when a change of the logs removed a log, it empties both decoration sets of every
  visible editor.
\<close>

theorem stale_pass_changes_nothing:
  assumes "activeResultId s = Some resultId"
    and "findResult env (logs (store s)) resultId = None"
  shows "update env s = (s, None)
         \<and> (removed_logs \<noteq> [] \<longrightarrow>
              (\<forall>ed \<in> set (visibleTextEditors s).
                 highlight (decorations (logsObserver removed_logs s)) (editor_id ed) = []
                 \<and> callout (decorations (logsObserver removed_logs s)) (editor_id ed) = []))"
  using assms
  by (simp add: update_def logsObserver_def fold_clearEditor_highlight fold_clearEditor_callout)

theorem stale_pass_changes_nothing_witness:
  "activeResultId stateStale = Some 42
   \<and> findResult sampleEnv (logs (store stateStale)) 42 = None
   \<and> [logA] \<noteq> []
   \<and> edA \<in> set (visibleTextEditors stateStale)
   \<and> update sampleEnv stateStale = (stateStale, None)
   \<and> highlight (decorations (logsObserver [logA] stateStale)) (editor_id edA) = []
   \<and> callout (decorations (logsObserver [logA] stateStale)) (editor_id edA) = []"
proof -
  have h1: "activeResultId stateStale = Some 42"
    by (simp add: stateStale_def)
  have h2: "findResult sampleEnv (logs (store stateStale)) 42 = None"
    by (simp add: sample_defs)
  have h3: "edA \<in> set (visibleTextEditors stateStale)"
    by (simp add: stateStale_def)
  show ?thesis
    using h1 h2 h3 stale_pass_changes_nothing [OF h1 h2, of "[logA]"] by simp
qed

text \<open>
  C4. Claimed: a shrink of the collection of logs forces a recomputation, so that a pinned
  result that still resolves is rendered again and not left cleared. The code does not do
  this. In \<^verbatim>\<open>stateA\<close> the result 42 of \<^verbatim>\<open>a.sarif\<close> is pinned and rendered and the
  other log, \<^verbatim>\<open>b.sarif\<close>, has just been removed: the result 42 still resolves, the
  observer leaves the editor with no decoration, and an update pass from there would render
  the two highlights again.
\<close>

theorem removal_leaves_live_result_cleared:
  "activeResultId stateA = Some 42
   \<and> findResult sampleEnv (logs (store stateA)) 42 = Some result42
   \<and> highlight (decorations stateA) 0 = [region0, region1]
   \<and> highlight (decorations (logsObserver [logB] stateA)) 0 = []
   \<and> callout (decorations (logsObserver [logB] stateA)) 0 = []
   \<and> highlight (decorations (fst (update sampleEnv (logsObserver [logB] stateA)))) 0
       = [region0, region1]"
  by (simp add: sample_defs pass_defs logsObserver_def clearEditor_def tab_def space_def
      filler_def)



text \<open>
  C6. When no baseline snapshot is available for the document of an editor, there are no
  diff blocks, the highlighted range of each location is its region as it is, the projector
  and the diff are not used (any other projector and diff give the same pass), and the pass
  of the editor ends without an error when the regions end on lines of the document.
\<close>

theorem no_baseline_identity:
  assumes "getOriginalDoc env (commit_sha st) (document ed) = None"
  shows "diffBlocks env (getOriginalDoc env (commit_sha st) (document ed)) (document ed) = []
    \<and> highlight (fst (updateEditor env st result ed decos)) (editor_id ed) =
        map (\<lambda>tfl. case region tfl of None \<Rightarrow> noRegion env | Some r \<Rightarrow> r)
          (locationsInDoc env result (document ed) (resultLocations result))
    \<and> updateEditor (env\<lparr>project := p, diffChars := d\<rparr>) st result ed decos
        = updateEditor env st result ed decos
    \<and> ((\<forall>tfl \<in> set (resultLocations result).
           \<exists>r. region tfl = Some r \<and> line (range_end r) < length (lines (document ed)))
        \<longrightarrow> snd (updateEditor env st result ed decos) = None)"
proof -
  have a: "diffBlocks env (getOriginalDoc env (commit_sha st) (document ed)) (document ed) = []"
    using assms by (simp add: diffBlocks_def)
  have b: "highlight (fst (updateEditor env st result ed decos)) (editor_id ed) =
        map (\<lambda>tfl. case region tfl of None \<Rightarrow> noRegion env | Some r \<Rightarrow> r)
          (locationsInDoc env result (document ed) (resultLocations result))"
    using assms
    by (simp add: updateEditor_highlight ranges_def driftedRegionToSelection_def)
  have c: "updateEditor (env\<lparr>project := p, diffChars := d\<rparr>) st result ed decos
        = updateEditor env st result ed decos"
    using assms
    by (simp add: updateEditor_def locationsInDoc_all diffBlocks_def ranges_bypass Let_def
        cong: sum.case_cong)
  have d: "snd (updateEditor env st result ed decos) = None"
    if all: "\<forall>tfl \<in> set (resultLocations result).
           \<exists>r. region tfl = Some r \<and> line (range_end r) < length (lines (document ed))"
  proof -
    let ?rs = "ranges env [] (document ed) None (resultLocations result)"
    have "\<And>r. r \<in> set ?rs \<Longrightarrow> line (range_end r) < length (lines (document ed))"
      using all by (auto simp: ranges_def driftedRegionToSelection_def)
    then obtain cs where
      "callouts (document ed) (tabSize ed) (resultLocations result) (resultLocations result) ?rs
         = Inr cs"
      using callouts_total by blast
    then show ?thesis
      using assms by (simp add: updateEditor_def locationsInDoc_all diffBlocks_def)
  qed
  from a b c d show ?thesis by blast
qed

theorem no_baseline_identity_witness:
  "getOriginalDoc sampleEnv (commit_sha (store stateAB)) (document edA) = None
   \<and> resultLocations result42 = [loc0, loc1]
   \<and> region loc0 = Some region0 \<and> line (range_end region0) < length (lines (document edA))
   \<and> region loc1 = Some region1 \<and> line (range_end region1) < length (lines (document edA))
   \<and> highlight (fst (updateEditor sampleEnv (store stateAB) result42 edA noDecorations))
        (editor_id edA) = [region0, region1]
   \<and> snd (updateEditor sampleEnv (store stateAB) result42 edA noDecorations) = None"
proof -
  have h1: "getOriginalDoc sampleEnv (commit_sha (store stateAB)) (document edA) = None"
    by (simp add: sampleEnv_def)
  have h2: "resultLocations result42 = [loc0, loc1]"
    by (simp add: result42_def resultLocations_def)
  have h3: "region loc0 = Some region0" "line (range_end region0) < length (lines (document edA))"
    "region loc1 = Some region1" "line (range_end region1) < length (lines (document edA))"
    by (simp_all add: sample_defs Range_def)
  have l: "locationsInDoc sampleEnv result42 (document edA) (resultLocations result42)
             = [loc0, loc1]"
    by (simp add: locationsInDoc_all h2)
  show ?thesis
    using h1 h2 h3 l
      no_baseline_identity [OF h1, where result = result42 and decos = noDecorations
        and p = "project sampleEnv" and d = "diffChars sampleEnv"]
    by simp
qed

text \<open>
  C7, as claimed: the adjusted end column is the column of the anchor plus
  \<open>tabWidth - 1\<close> for each tab of the line up to the end position of the region. It is
  not: on the line \<^verbatim>\<open>x<tab>y\<close> with a region that ends at column 1, before the tab, and
  a tab width of 4, the claimed column is 3 and the code computes 6.
\<close>

theorem tabs_after_region_end_are_counted:
  "rangeEnd docT regionT = Inr (Range \<lparr>line = 0, character = 3\<rparr> \<lparr>line = 0, character = 3\<rparr>)
   \<and> rangeEndAdj docT 4 (Range \<lparr>line = 0, character = 3\<rparr> \<lparr>line = 0, character = 3\<rparr>) = Inr 6
   \<and> spec_visualColumn (lines docT ! 0) 3 4 (character (range_end regionT)) = 3
   \<and> rangeEndAdj docT 4 (Range \<lparr>line = 0, character = 3\<rparr> \<lparr>line = 0, character = 3\<rparr>)
       \<noteq> Inr (spec_visualColumn (lines docT ! 0) 3 4 (character (range_end regionT)))"
  by (simp add: docT_def regionT_def rangeEnd_def rangeEndAdj_def lineAt_def Range_def
      spec_visualColumn_def tab_def Let_def)

text \<open>
  C7, amended. For every anchor line and every tab width, the adjusted end column is the
  column of the anchor, which is the end of the line, plus \<open>tabWidth - 1\<close> for each tab of
  the whole line, that is, for each tab up to the anchor, wherever the region ends.
\<close>

theorem visual_column_counts_line_tabs:
  assumes "rangeEnd currentDoc r = Inr e"
  shows "\<exists>text. lineAt currentDoc (line (range_end r)) = Inr text
           \<and> range_end e = \<lparr>line = line (range_end r), character = length text\<rparr>
           \<and> rangeEndAdj currentDoc tabSz e =
               Inr (int (character (range_end e))
                    + (tabSz - 1) * int (length (filter (\<lambda>c. c = tab) text)))
           \<and> rangeEndAdj currentDoc tabSz e =
               Inr (spec_visualColumn text (character (range_end e)) tabSz
                      (character (range_end e)))"
  using rangeEnd_Inr [OF assms] rangeEndAdj_after_rangeEnd [OF assms, of tabSz]
  by (simp add: lineAt_def Range_def spec_visualColumn_def)

theorem visual_column_counts_line_tabs_witness:
  "rangeEnd docT regionT = Inr (Range \<lparr>line = 0, character = 3\<rparr> \<lparr>line = 0, character = 3\<rparr>)
   \<and> lineAt docT (line (range_end regionT)) = Inr [0x78, tab, 0x79]
   \<and> rangeEndAdj docT 4 (Range \<lparr>line = 0, character = 3\<rparr> \<lparr>line = 0, character = 3\<rparr>)
       = Inr (3 + (4 - 1) * 1)"
proof -
  have h: "rangeEnd docT regionT
             = Inr (Range \<lparr>line = 0, character = 3\<rparr> \<lparr>line = 0, character = 3\<rparr>)"
    by (simp add: docT_def regionT_def rangeEnd_def lineAt_def Range_def Let_def)
  show ?thesis
    using h visual_column_counts_line_tabs [OF h, of 4]
    by (simp add: docT_def regionT_def lineAt_def Range_def tab_def)
qed




text \<open>
  C9. Claimed: in an update pass the highlight set and the callout set of an editor are
  always replaced together. The code does not do this when a rendered range ends below the
  last line of the document. In \<^verbatim>\<open>stateCut\<close> the document has been cut to one line, no
  baseline is available and the second region ends on line 1: the pass replaces the
  highlights of the editor, throws at \<^verbatim>\<open>lineAt\<close>, and leaves the callouts of the
  earlier pass in place.
\<close>

theorem cut_document_partial_update:
  "snd (update sampleEnv stateCut) = Some IllegalLine
   \<and> highlight (decorations stateCut) 0 = [region0]
   \<and> highlight (decorations (fst (update sampleEnv stateCut))) 0 = [region0, region1]
   \<and> callout (decorations (fst (update sampleEnv stateCut))) 0 = [oldCallout]"
  by (simp add: sample_defs pass_defs tab_def space_def filler_def)

text \<open>
  C10. For every index of the adjusted end columns of a pass, the repeat count, the greatest
  adjusted end column plus 2 minus the adjusted end column at that index, is an integer of
  at least 2, so the filler is repeated without a throw; the sub-scope of the callouts never
  ends with the error of \<^verbatim>\<open>repeat\<close>.
\<close>

theorem repeat_count_at_least_two:
  "(i < length adjs \<longrightarrow>
      (\<exists>k. jsnum_sub (maxRangeEnd adjs) (adjs ! i) = Num k \<and> 2 \<le> k
           \<and> repeat filler (Num k) = Inr (replicate (nat k) filler)))
   \<and> callouts currentDoc tabSz locs locsInDoc rs \<noteq> Inl RangeError"
proof -
  have "\<exists>k. jsnum_sub (maxRangeEnd adjs) (adjs ! i) = Num k \<and> 2 \<le> k
          \<and> repeat filler (Num k) = Inr (replicate (nat k) filler)"
    if lt: "i < length adjs"
    using repeat_count [OF lt] repeat_count_ge [OF lt] by simp
  then show ?thesis
    using callouts_no_RangeError by blast
qed

theorem repeat_count_at_least_two_witness:
  "(1::nat) < length [10, 14::int]
   \<and> jsnum_sub (maxRangeEnd [10, 14]) ([10, 14] ! 1) = Num 2
   \<and> repeat filler (Num 2) = Inr [filler, filler]"
  using repeat_count_at_least_two [of 1 "[10, 14]"]
  by (simp add: maxRangeEnd_def eval_nat_numeral)

end
